theory Spec2Isabelle
  imports Main "HOL-Library.Sublist"
begin

section \<open>Data model of the admin dashboard\<close>

text \<open>
  The dashboard is one React component (\<^verbatim>\<open>AdminDashboard\<close>). Its \<^verbatim>\<open>useState\<close> cells and
  \<^verbatim>\<open>useRef\<close> cells become the fields of a record; every handler and effect becomes a function
  from state to state. An \<^verbatim>\<open>async\<close> handler is cut at its \<^verbatim>\<open>await\<close>s: the part that runs
  synchronously when the handler is called, and the parts that run once the awaited response is
  there. What the component does to the outside is recorded in the state as well: the HTTP
  requests it has issued (\<open>requests\<close>), what it has written with \<^verbatim>\<open>console.error\<close>
  (\<open>console\<close>) and the interval timers that are armed (\<open>intervals\<close>).

  Identifiers are JavaScript numbers holding integers (\<open>int\<close>); \<^verbatim>\<open>Date.now()\<close> is a number of
  milliseconds (\<open>int\<close>). Strings are lists of code units, taken to be well-formed text.
\<close>

datatype status = Pending | Approved | Rejected

text \<open>The filter is \<^verbatim>\<open>"all" | "pending" | "approved" | "rejected"\<close>: either \<^verbatim>\<open>"all"\<close> or the
  name of a status, so that \<^verbatim>\<open>p.status === filter\<close> is an equality of the two.\<close>

datatype filter_choice = Filter_all | Filter_status status

record user_ref =
  u_id :: string
  u_name :: string
  u_email :: string

text \<open>Interface \<^verbatim>\<open>Post\<close>. The fields \<^verbatim>\<open>id\<close>, \<^verbatim>\<open>name\<close> and \<^verbatim>\<open>user\<close> are written \<open>p_id\<close>,
  \<open>p_name\<close> and \<open>p_user\<close>. A field that may be \<^verbatim>\<open>null\<close> or absent is an option.\<close>

record post =
  p_id :: int
  user_id :: string
  p_name :: string
  level :: string
  position :: string
  bio :: string
  platform :: "string option"
  education :: "(string \<times> string) list option"
  achievements :: "string list option"
  images :: "(string \<times> string) list option"
  profile_photo :: "string option"
  party :: "string option"
  party_list_managed :: "bool option"
  status :: status
  admin_notes :: "string option"
  p_user :: user_ref
  created_at :: string
  updated_at :: string

text \<open>What the party-list search returns and the modal displays.\<close>

record party_list =
  pl_id :: int
  pl_name :: string
  acronym :: "string option"
  sector :: "string option"
  member_count :: "nat option"

text \<open>The body of \<^verbatim>\<open>POST /admin/partylists\<close>: \<^verbatim>\<open>{name, post_id, platform}\<close>.\<close>

record create_body =
  b_name :: "string option"
  b_post_id :: int
  b_platform :: "string list"

datatype request =
    GetPosts
  | PostApprove int
  | PostReject int string
  | GetPartyListSearch string
  | PostPartyList create_body

text \<open>What \<^verbatim>\<open>await fetch(...)\<close> gives: the call threw (\<open>Threw\<close>), or a response with its HTTP
  status and what \<^verbatim>\<open>response.json()\<close> yields (\<open>None\<close> when \<^verbatim>\<open>json()\<close> throws).\<close>

datatype 'a response = Threw | Http nat "'a option"

text \<open>\<^verbatim>\<open>response.ok\<close> of the Fetch API: the status is in the range 200 to 299.\<close>

definition ok :: "nat \<Rightarrow> bool" where
  "ok st = (200 \<le> st \<and> st \<le> 299)"

text \<open>The JSON of \<^verbatim>\<open>GET /admin/posts\<close>, as far as \<^verbatim>\<open>Array.isArray\<close> tells it apart.\<close>

datatype posts_json = Posts_array "post list" | Not_array

datatype diagnostic =
    Invalid_response_format
  | Failed_to_fetch_posts_body
  | Failed_to_fetch_posts_http nat
  | Failed_to_fetch_posts_error
  | Failed_to_approve_post
  | Failed_to_reject_post
  | Failed_to_search_party_lists

record dashboard =
  isAuthenticated :: "bool option"
  posts :: "post list"
  filteredPosts :: "post list"
  isLoading :: bool
  isRefreshing :: bool
  filter_value :: filter_choice
  rejectNotes :: "int \<rightharpoonup> string"
  processingIds :: "int set"
  partyListModals :: "int \<rightharpoonup> bool"
  existingPartyLists :: "int \<rightharpoonup> party_list list"
  searchPartyList :: "int \<rightharpoonup> string"
  isSearchingPartyList :: "int \<rightharpoonup> bool"
  selectedPartyListId :: "int \<rightharpoonup> int option"
  isProcessingPartyList :: "int \<rightharpoonup> bool"
  intervalRef :: "nat option"
  lastFetchRef :: int
  isInitialMount :: bool
  requests :: "request list"
  console :: "diagnostic list"
  intervals :: "nat set"
  next_interval :: nat

text \<open>The state of the first render: the initial values of the \<^verbatim>\<open>useState\<close> and \<^verbatim>\<open>useRef\<close>
  calls, nothing requested, nothing logged, no timer armed.\<close>

definition initial_state :: dashboard where
  "initial_state = \<lparr>
     isAuthenticated = None, posts = [], filteredPosts = [], isLoading = True,
     isRefreshing = False, filter_value = Filter_status Pending, rejectNotes = Map.empty,
     processingIds = {}, partyListModals = Map.empty, existingPartyLists = Map.empty,
     searchPartyList = Map.empty, isSearchingPartyList = Map.empty,
     selectedPartyListId = Map.empty, isProcessingPartyList = Map.empty,
     intervalRef = None, lastFetchRef = 0, isInitialMount = True,
     requests = [], console = [], intervals = {}, next_interval = 1 \<rparr>"

section \<open>fetchPosts\<close>

text \<open>JavaScript truthiness of a \<^verbatim>\<open>boolean | null\<close>.\<close>

definition truthy :: "bool option \<Rightarrow> bool" where
  "truthy a = (a = Some True)"

text \<open>
  \<^verbatim>\<open>fetchPosts\<close> up to its \<^verbatim>\<open>await fetch(...)\<close>. The callback reads \<^verbatim>\<open>isAuthenticated\<close> from the
  scope it was created in; that binding is the first argument \<open>auth\<close>, and every handler and
  effect that calls \<^verbatim>\<open>fetchPosts\<close> passes it on unchanged.
\<close>

definition fetchPosts_begin :: "bool option \<Rightarrow> bool \<Rightarrow> dashboard \<Rightarrow> dashboard" where
  "fetchPosts_begin auth silent s =
     (if \<not> truthy auth then s
      else (if \<not> silent then s\<lparr>isLoading := True\<rparr> else s\<lparr>isRefreshing := True\<rparr>)
             \<lparr>requests := requests s @ [GetPosts]\<rparr>)"

text \<open>
  \<^verbatim>\<open>useCallback(..., [])\<close> hands every render the callback that the first render created.
  The \<^verbatim>\<open>isAuthenticated\<close> in the scope of that callback is the one of the first render: the
  initial value of the state cell. This is the binding with which the component calls
  \<^verbatim>\<open>fetchPosts\<close>.
\<close>

definition fetchPosts_isAuthenticated :: "bool option" where
  "fetchPosts_isAuthenticated = isAuthenticated initial_state"

text \<open>The branch of \<^verbatim>\<open>fetchPosts\<close> taken on the response, before \<^verbatim>\<open>finally\<close>. \<open>now\<close> is
  what \<^verbatim>\<open>Date.now()\<close> returns at that moment.\<close>

definition fetchPosts_response :: "int \<Rightarrow> posts_json response \<Rightarrow> dashboard \<Rightarrow> dashboard" where
  "fetchPosts_response now r s =
     (case r of
        Threw \<Rightarrow> s\<lparr>console := console s @ [Failed_to_fetch_posts_error], posts := []\<rparr>
      | Http st body \<Rightarrow>
          if ok st then
            (case body of
               None \<Rightarrow> s\<lparr>console := console s @ [Failed_to_fetch_posts_error], posts := []\<rparr>
             | Some (Posts_array d) \<Rightarrow> s\<lparr>posts := d, lastFetchRef := now\<rparr>
             | Some Not_array \<Rightarrow>
                 s\<lparr>console := console s @ [Invalid_response_format], posts := []\<rparr>)
          else
            (case body of
               Some _ \<Rightarrow> s\<lparr>console := console s @ [Failed_to_fetch_posts_body], posts := []\<rparr>
             | None \<Rightarrow> s\<lparr>console := console s @ [Failed_to_fetch_posts_http st], posts := []\<rparr>))"

text \<open>The rest of \<^verbatim>\<open>fetchPosts\<close> once the response is there: the branch, then \<^verbatim>\<open>finally\<close>.\<close>

definition fetchPosts_settle :: "int \<Rightarrow> posts_json response \<Rightarrow> dashboard \<Rightarrow> dashboard" where
  "fetchPosts_settle now r s =
     (fetchPosts_response now r s)\<lparr>isLoading := False, isRefreshing := False\<rparr>"

section \<open>Effects: initial fetch, polling, filtering\<close>

text \<open>The effect \<^verbatim>\<open>// Check authentication on mount\<close>. \<open>authenticated\<close> is
  \<^verbatim>\<open>localStorage.getItem('admin_authenticated') === 'true'\<close>.\<close>

definition check_authentication_effect :: "bool \<Rightarrow> dashboard \<Rightarrow> dashboard" where
  "check_authentication_effect authenticated s =
     (if \<not> authenticated
      then s\<lparr>isAuthenticated := Some authenticated, isLoading := False\<rparr>
      else s\<lparr>isAuthenticated := Some authenticated\<rparr>)"

text \<open>The effect \<^verbatim>\<open>// Initial fetch\<close>: \<^verbatim>\<open>fetchPosts()\<close> is called with \<^verbatim>\<open>silent\<close> at its default
  \<^verbatim>\<open>false\<close>, and the flag is cleared right after the call, while the request is in flight.\<close>

definition initial_fetch_effect :: "bool option \<Rightarrow> dashboard \<Rightarrow> dashboard" where
  "initial_fetch_effect auth s =
     (if isAuthenticated s = Some True
      then (fetchPosts_begin auth False s)\<lparr>isInitialMount := False\<rparr>
      else s)"

text \<open>\<^verbatim>\<open>clearInterval(intervalRef.current)\<close> under \<^verbatim>\<open>if (intervalRef.current)\<close>. The handle stays in
  the ref; a browser's handles are positive, hence truthy.\<close>

definition clear_interval :: "dashboard \<Rightarrow> dashboard" where
  "clear_interval s =
     (case intervalRef s of
        None \<Rightarrow> s
      | Some h \<Rightarrow> s\<lparr>intervals := intervals s - {h}\<rparr>)"

definition setupAutoRefresh :: "dashboard \<Rightarrow> dashboard" where
  "setupAutoRefresh s =
     (let s1 = clear_interval s; h = next_interval s1
      in s1\<lparr>intervalRef := Some h, intervals := insert h (intervals s1),
             next_interval := h + 1\<rparr>)"

text \<open>The callback of \<^verbatim>\<open>setInterval\<close>. \<open>visible\<close> is \<^verbatim>\<open>document.visibilityState === 'visible'\<close>,
  \<open>now\<close> is \<^verbatim>\<open>Date.now()\<close>.\<close>

definition interval_tick :: "bool option \<Rightarrow> bool \<Rightarrow> int \<Rightarrow> dashboard \<Rightarrow> dashboard" where
  "interval_tick auth visible now s =
     (if visible
      then (if now - lastFetchRef s > 10000 then fetchPosts_begin auth True s else s)
      else s)"

definition handleVisibilityChange ::
  "bool option \<Rightarrow> bool \<Rightarrow> int \<Rightarrow> dashboard \<Rightarrow> dashboard" where
  "handleVisibilityChange auth visible now s =
     (if visible
      then setupAutoRefresh
             (if now - lastFetchRef s > 10000 then fetchPosts_begin auth True s else s)
      else clear_interval s)"

text \<open>The effect \<^verbatim>\<open>// Update filtered posts when filter or posts change\<close>.\<close>

definition filteredPosts_effect :: "dashboard \<Rightarrow> dashboard" where
  "filteredPosts_effect s =
     (if filter_value s = Filter_all
      then s\<lparr>filteredPosts := posts s\<rparr>
      else s\<lparr>filteredPosts :=
               filter (\<lambda>p. Filter_status (status p) = filter_value s) (posts s)\<rparr>)"

text \<open>
  The effect \<^verbatim>\<open>// Auto-refresh when filter changes\<close>. Its dependency list is
  \<^verbatim>\<open>[filter, fetchPosts, posts.length]\<close>; \<^verbatim>\<open>fetchPosts\<close> never changes, so the dependencies of a
  render are the pair below. React runs the body after the first render (\<open>prev = None\<close>) and
  after every render whose dependencies differ from those of the render before.
\<close>

definition refetch_deps :: "dashboard \<Rightarrow> filter_choice \<times> nat" where
  "refetch_deps s = (filter_value s, length (posts s))"

definition refetch_body :: "bool option \<Rightarrow> dashboard \<Rightarrow> dashboard" where
  "refetch_body auth s =
     (if \<not> isInitialMount s \<and> length (posts s) > 0 then fetchPosts_begin auth True s else s)"

definition refetch_effect ::
  "bool option \<Rightarrow> (filter_choice \<times> nat) option \<Rightarrow> dashboard \<Rightarrow> dashboard" where
  "refetch_effect auth prev s =
     (if prev = Some (refetch_deps s) then s else refetch_body auth s)"

section \<open>Moderation actions\<close>

text \<open>
  \<^verbatim>\<open>handleApprove\<close> and \<^verbatim>\<open>handleReject\<close> are created anew by every render and read
  \<^verbatim>\<open>processingIds\<close> and \<^verbatim>\<open>rejectNotes\<close> from the scope of the render that created them:
  these are the arguments \<open>ids\<close> and \<open>notes\<close>. The guard tests \<open>ids\<close>, the set written is
  \<open>ids\<close> with the post added, and the \<^verbatim>\<open>finally\<close> block, which runs after the last
  \<^verbatim>\<open>await\<close>, writes \<open>ids\<close> with the post removed. Setters that are given a function
  (\<^verbatim>\<open>setPosts\<close>, \<^verbatim>\<open>setRejectNotes\<close>) work on the state as it is.
\<close>

definition handleApprove_begin :: "int set \<Rightarrow> int \<Rightarrow> dashboard \<Rightarrow> dashboard" where
  "handleApprove_begin ids postId s =
     (if postId \<in> ids then s
      else s\<lparr>processingIds := insert postId ids,
             posts := map (\<lambda>post. if p_id post = postId then post\<lparr>status := Approved\<rparr> else post)
                          (posts s),
             requests := requests s @ [PostApprove postId]\<rparr>)"

text \<open>The response of the approve call is there: all three paths call \<^verbatim>\<open>fetchPosts(true)\<close>,
  the \<^verbatim>\<open>catch\<close> path after logging.\<close>

definition handleApprove_response ::
  "bool option \<Rightarrow> 'a response \<Rightarrow> dashboard \<Rightarrow> dashboard" where
  "handleApprove_response auth r s =
     fetchPosts_begin auth True
       (case r of
          Threw \<Rightarrow> s\<lparr>console := console s @ [Failed_to_approve_post]\<rparr>
        | Http st body \<Rightarrow> s)"

definition handleApprove_finally :: "int set \<Rightarrow> int \<Rightarrow> dashboard \<Rightarrow> dashboard" where
  "handleApprove_finally ids postId s = s\<lparr>processingIds := ids - {postId}\<rparr>"

text \<open>\<^verbatim>\<open>rejectNotes[postId] || "Post rejected by admin"\<close>: an absent and an empty note are
  both falsy.\<close>

definition adminNotes_of :: "string option \<Rightarrow> string" where
  "adminNotes_of n =
     (case n of
        None \<Rightarrow> ''Post rejected by admin''
      | Some t \<Rightarrow> if t = [] then ''Post rejected by admin'' else t)"

definition handleReject_begin ::
  "int set \<Rightarrow> (int \<rightharpoonup> string) \<Rightarrow> int \<Rightarrow> dashboard \<Rightarrow> dashboard" where
  "handleReject_begin ids notes postId s =
     (if postId \<in> ids then s
      else
        (let adminNotes = adminNotes_of (notes postId)
         in s\<lparr>processingIds := insert postId ids,
                posts := map (\<lambda>post. if p_id post = postId
                                      then post\<lparr>status := Rejected, admin_notes := Some adminNotes\<rparr>
                                      else post)
                             (posts s),
                rejectNotes := (rejectNotes s)(postId := None),
                requests := requests s @ [PostReject postId adminNotes]\<rparr>))"

definition handleReject_response ::
  "bool option \<Rightarrow> 'a response \<Rightarrow> dashboard \<Rightarrow> dashboard" where
  "handleReject_response auth r s =
     fetchPosts_begin auth True
       (case r of
          Threw \<Rightarrow> s\<lparr>console := console s @ [Failed_to_reject_post]\<rparr>
        | Http st body \<Rightarrow> s)"

definition handleReject_finally :: "int set \<Rightarrow> int \<Rightarrow> dashboard \<Rightarrow> dashboard" where
  "handleReject_finally ids postId s = s\<lparr>processingIds := ids - {postId}\<rparr>"

section \<open>Party list manager\<close>

text \<open>\<^verbatim>\<open>onChange\<close> of the search box of the modal of post \<open>postId\<close>, up to its \<^verbatim>\<open>await\<close>.\<close>

definition search_onChange_begin :: "int \<Rightarrow> string \<Rightarrow> dashboard \<Rightarrow> dashboard" where
  "search_onChange_begin postId query s =
     (let s1 = s\<lparr>searchPartyList := (searchPartyList s)(postId \<mapsto> query),
                  selectedPartyListId := (selectedPartyListId s)(postId \<mapsto> None)\<rparr>
      in if length query \<ge> 2
         then s1\<lparr>isSearchingPartyList := (isSearchingPartyList s1)(postId \<mapsto> True),
                 requests := requests s1 @ [GetPartyListSearch query]\<rparr>
         else s1\<lparr>existingPartyLists := (existingPartyLists s1)(postId \<mapsto> [])\<rparr>)"

text \<open>The rest of that handler once the search response is there.\<close>

definition search_onChange_settle ::
  "int \<Rightarrow> party_list list response \<Rightarrow> dashboard \<Rightarrow> dashboard" where
  "search_onChange_settle postId r s =
     (let s1 =
        (case r of
           Threw \<Rightarrow> s\<lparr>console := console s @ [Failed_to_search_party_lists]\<rparr>
         | Http st body \<Rightarrow>
             if ok st then
               (case body of
                  None \<Rightarrow> s\<lparr>console := console s @ [Failed_to_search_party_lists]\<rparr>
                | Some data \<Rightarrow>
                    s\<lparr>existingPartyLists := (existingPartyLists s)(postId \<mapsto> data)\<rparr>)
             else s)
      in s1\<lparr>isSearchingPartyList := (isSearchingPartyList s1)(postId \<mapsto> False)\<rparr>)"

text \<open>The \<^verbatim>\<open>platform\<close> of the body:
  \<^verbatim>\<open>post.platform ? (typeof post.platform === 'string' ? [post.platform] : post.platform) : []\<close>.
  A \<^verbatim>\<open>Post\<close>'s platform is \<^verbatim>\<open>string | null\<close>, and the empty string is falsy.\<close>

definition platform_list :: "string option \<Rightarrow> string list" where
  "platform_list pf =
     (case pf of
        None \<Rightarrow> []
      | Some t \<Rightarrow> if t = [] then [] else [t])"

definition create_body_of :: "post \<Rightarrow> create_body" where
  "create_body_of post =
     \<lparr>b_name = party post, b_post_id = p_id post, b_platform = platform_list (platform post)\<rparr>"

text \<open>\<^verbatim>\<open>onClick\<close> of "Create New Party List", up to its \<^verbatim>\<open>await fetch(...)\<close>.\<close>

definition createPartyList_begin :: "post \<Rightarrow> dashboard \<Rightarrow> dashboard" where
  "createPartyList_begin post s =
     s\<lparr>isProcessingPartyList := (isProcessingPartyList s)(p_id post \<mapsto> True),
       requests := requests s @ [PostPartyList (create_body_of post)]\<rparr>"

section \<open>Values for evaluation\<close>

text \<open>A post with the given identifier, status and platform, its other fields filled in; and the
  state of a dashboard that is showing a list of posts.\<close>

definition example_post :: "int \<Rightarrow> status \<Rightarrow> string option \<Rightarrow> post" where
  "example_post i st pf =
     \<lparr>p_id = i, user_id = ''u1'', p_name = ''Juan'', level = ''national'',
      position = ''senator'', bio = ''bio'', platform = pf, education = None,
      achievements = None, images = None, profile_photo = None, party = Some ''Bayan'',
      party_list_managed = None, status = st, admin_notes = None,
      p_user = \<lparr>u_id = ''u1'', u_name = ''Juan'', u_email = ''juan@example.org''\<rparr>,
      created_at = ''2025-01-01'', updated_at = ''2025-01-01''\<rparr>"

definition showing :: "post list \<Rightarrow> dashboard" where
  "showing ps = initial_state\<lparr>isAuthenticated := Some True, posts := ps, isLoading := False,
                               isInitialMount := False\<rparr>"

text \<open>The component after its first render and the authentication check of a session whose
  stored flag is set, and after the initial-fetch effect that follows.\<close>

definition authenticated_state :: dashboard where
  "authenticated_state = check_authentication_effect True initial_state"

definition mounted_state :: dashboard where
  "mounted_state = initial_fetch_effect fetchPosts_isAuthenticated authenticated_state"

text \<open>A dashboard showing one pending post for which the note "bad data" has been typed. The
  reject handler of that render is called for the post; the reject call is answered with status
  500; the handler runs to its end.\<close>

definition bad_data_state :: dashboard where
  "bad_data_state = (showing [example_post 1 Pending None])\<lparr>rejectNotes := [1 \<mapsto> ''bad data'']\<rparr>"

definition rejected_state :: dashboard where
  "rejected_state =
     handleReject_begin (processingIds bad_data_state) (rejectNotes bad_data_state) 1
       bad_data_state"

definition reject_answered_state :: dashboard where
  "reject_answered_state =
     handleReject_finally (processingIds bad_data_state) 1
       (handleReject_response fetchPosts_isAuthenticated (Http 500 (None :: unit option))
          rejected_state)"





text \<open>A dashboard showing one pending post under the filter "approved", the flag of the
  initial mount cleared; and a dashboard whose last fetch is recorded at 60 s.\<close>

definition filter_changed_state :: dashboard where
  "filter_changed_state =
     (showing [example_post 1 Pending None])\<lparr>filter_value := Filter_status Approved\<rparr>"

definition fetched_at_60s_state :: dashboard where
  "fetched_at_60s_state = (showing [example_post 1 Pending None])\<lparr>lastFetchRef := 60000\<rparr>"

text \<open>A party list as the search returns it, and a dashboard whose modal of post 1 shows
  that party list as an earlier result.\<close>

definition example_party_list :: party_list where
  "example_party_list =
     \<lparr>pl_id = 7, pl_name = ''Bayan'', acronym = None, sector = None, member_count = Some 3\<rparr>"

definition earlier_results_state :: dashboard where
  "earlier_results_state =
     (showing [example_post 1 Pending None])
       \<lparr>existingPartyLists := [1 \<mapsto> [example_party_list]]\<rparr>"

section \<open>Frame lemmas\<close>

lemma lastFetchRef_fetchPosts_begin:
  "lastFetchRef (fetchPosts_begin auth silent s) = lastFetchRef s"
  by (simp add: fetchPosts_begin_def)

lemma requests_clear_interval: "requests (clear_interval s) = requests s"
  by (simp add: clear_interval_def split: option.splits)

lemma requests_setupAutoRefresh: "requests (setupAutoRefresh s) = requests s"
  by (simp add: setupAutoRefresh_def clear_interval_def Let_def split: option.splits)

lemma lastFetchRef_setupAutoRefresh: "lastFetchRef (setupAutoRefresh s) = lastFetchRef s"
  by (simp add: setupAutoRefresh_def clear_interval_def Let_def split: option.splits)

lemma lastFetchRef_clear_interval: "lastFetchRef (clear_interval s) = lastFetchRef s"
  by (simp add: clear_interval_def split: option.splits)

text \<open>With the binding of the first render, \<^verbatim>\<open>null\<close>, \<^verbatim>\<open>fetchPosts\<close> returns at its guard,
  whatever the state and whether silent or not.\<close>

lemma fetchPosts_first_render_binding:
  "fetchPosts_begin fetchPosts_isAuthenticated silent s = s"
  by (simp add: fetchPosts_begin_def fetchPosts_isAuthenticated_def initial_state_def truthy_def)

text \<open>The optimistic update of a rejection that passes the guard: every cached post with the
  identifier is "rejected" with the notes of the request, the placeholder when no note or an
  empty one was typed.\<close>

lemma handleReject_optimistic:
  assumes "postId \<notin> ids" and "p \<in> set (posts (handleReject_begin ids notes postId s))"
    and "p_id p = postId"
  shows "status p = Rejected \<and> admin_notes p = Some (adminNotes_of (notes postId))"
proof -
  let ?f = "\<lambda>post. if p_id post = postId
             then post\<lparr>status := Rejected, admin_notes := Some (adminNotes_of (notes postId))\<rparr>
             else post"
  from assms(1) have eq: "posts (handleReject_begin ids notes postId s) = map ?f (posts s)"
    by (simp add: handleReject_begin_def Let_def)
  from assms(2) have "p \<in> ?f ` set (posts s)"
    unfolding eq by simp
  then obtain x where x: "p = ?f x"
    by blast
  show ?thesis
  proof (cases "p_id x = postId")
    case True
    with x show ?thesis by simp
  next
    case False
    with x assms(3) show ?thesis by simp
  qed
qed

section \<open>Properties of fetchPosts\<close>

text \<open>
  Claim C9. Calling \<^verbatim>\<open>fetchPosts\<close> while the session is not authenticated (the
  \<^verbatim>\<open>isAuthenticated\<close> it reads is \<^verbatim>\<open>null\<close> or \<^verbatim>\<open>false\<close>) is a complete no-op: the state is
  returned as it was, so no request is issued and the post collection, both indicators and the
  last-fetch timestamp are unchanged.
\<close>

theorem fetchPosts_unauthenticated_noop:
  assumes "auth = None \<or> auth = Some False"
  shows "fetchPosts_begin auth silent s = s
       \<and> requests (fetchPosts_begin auth silent s) = requests s
       \<and> posts (fetchPosts_begin auth silent s) = posts s
       \<and> isLoading (fetchPosts_begin auth silent s) = isLoading s
       \<and> isRefreshing (fetchPosts_begin auth silent s) = isRefreshing s
       \<and> lastFetchRef (fetchPosts_begin auth silent s) = lastFetchRef s"
proof -
  from assms have "\<not> truthy auth"
    by (auto simp: truthy_def)
  then have "fetchPosts_begin auth silent s = s"
    by (simp add: fetchPosts_begin_def)
  then show ?thesis
    by simp
qed

theorem fetchPosts_unauthenticated_noop_witness:
  "fetchPosts_begin (Some False) False initial_state = initial_state
   \<and> requests (fetchPosts_begin None True initial_state) = []
   \<and> isLoading (fetchPosts_begin None True initial_state) = True"
  using fetchPosts_unauthenticated_noop [of "Some False" False initial_state]
        fetchPosts_unauthenticated_noop [of None True initial_state]
  by (simp add: initial_state_def)

text \<open>
  Claim C3 is not met by the code. The claim has \<^verbatim>\<open>fetchPosts\<close> replace the post collection
  and record the timestamp on an HTTP success with an array, and empty the collection and emit
  a diagnostic on a failure. In the component \<^verbatim>\<open>fetchPosts\<close> returns at its guard, silent or
  not and in every state: the state is unchanged, so no request is issued and no response is
  ever handled. For an authenticated session the initial fetch leaves the request list empty,
  the collection empty, the loading indicator on and the timestamp at 0.
\<close>

theorem fetchPosts_never_requests:
  "fetchPosts_begin fetchPosts_isAuthenticated silent s = s
   \<and> requests (fetchPosts_begin fetchPosts_isAuthenticated silent s) = requests s
   \<and> isAuthenticated authenticated_state = Some True
   \<and> requests mounted_state = []
   \<and> posts mounted_state = []
   \<and> isLoading mounted_state
   \<and> lastFetchRef mounted_state = 0
   \<and> console mounted_state = []"
proof -
  have guard: "fetchPosts_begin fetchPosts_isAuthenticated silent s = s"
    by (rule fetchPosts_first_render_binding)
  have session: "isAuthenticated authenticated_state = Some True"
    by (simp add: authenticated_state_def check_authentication_effect_def)
  have mounted: "mounted_state = authenticated_state\<lparr>isInitialMount := False\<rparr>"
    by (simp add: mounted_state_def initial_fetch_effect_def session
          fetchPosts_first_render_binding)
  have fields: "requests mounted_state = [] \<and> posts mounted_state = []
      \<and> isLoading mounted_state \<and> lastFetchRef mounted_state = 0 \<and> console mounted_state = []"
    unfolding mounted
    by (simp add: authenticated_state_def check_authentication_effect_def initial_state_def)
  from guard session fields show ?thesis
    by simp
qed

text \<open>
  Claim C10. The last-fetch timestamp after \<^verbatim>\<open>fetchPosts\<close> has handled a response is the time
  of that moment when the response is an HTTP success carrying an array, and the old timestamp
  in every other case: a payload that is not an array, a body that does not parse, a status
  outside 200 to 299, a \<^verbatim>\<open>fetch\<close> that threw. Issuing the request does not touch it, nor does
  any other handler or effect, so a fetch that failed leaves the cool-down anchor where it was.
\<close>

theorem lastFetchRef_only_on_array:
  "lastFetchRef (fetchPosts_settle now r s) =
     (case r of
        Http st (Some (Posts_array d)) \<Rightarrow> if ok st then now else lastFetchRef s
      | _ \<Rightarrow> lastFetchRef s)
   \<and> lastFetchRef (fetchPosts_settle now (Http st' (Some Not_array)) s) = lastFetchRef s
   \<and> lastFetchRef (fetchPosts_settle now (Http st' None) s) = lastFetchRef s
   \<and> lastFetchRef (fetchPosts_settle now Threw s) = lastFetchRef s
   \<and> lastFetchRef (fetchPosts_begin auth silent s) = lastFetchRef s
   \<and> lastFetchRef (interval_tick auth visible now s) = lastFetchRef s
   \<and> lastFetchRef (handleVisibilityChange auth visible now s) = lastFetchRef s
   \<and> lastFetchRef (refetch_effect auth prev s) = lastFetchRef s
   \<and> lastFetchRef (initial_fetch_effect auth s) = lastFetchRef s
   \<and> lastFetchRef (handleApprove_begin ids postId s) = lastFetchRef s
   \<and> lastFetchRef (handleApprove_response auth ra s) = lastFetchRef s
   \<and> lastFetchRef (handleApprove_finally ids postId s) = lastFetchRef s
   \<and> lastFetchRef (handleReject_begin ids nts postId s) = lastFetchRef s
   \<and> lastFetchRef (handleReject_response auth ra s) = lastFetchRef s
   \<and> lastFetchRef (handleReject_finally ids postId s) = lastFetchRef s"
proof -
  have settle: "lastFetchRef (fetchPosts_settle now r s) =
     (case r of
        Http st (Some (Posts_array d)) \<Rightarrow> if ok st then now else lastFetchRef s
      | _ \<Rightarrow> lastFetchRef s)" for r
    by (auto simp: fetchPosts_settle_def fetchPosts_response_def
             split: response.splits option.splits posts_json.splits)
  have polling: "lastFetchRef (interval_tick auth visible now s) = lastFetchRef s"
    "lastFetchRef (handleVisibilityChange auth visible now s) = lastFetchRef s"
    by (simp_all add: interval_tick_def handleVisibilityChange_def lastFetchRef_fetchPosts_begin
          lastFetchRef_setupAutoRefresh lastFetchRef_clear_interval)
  have effects: "lastFetchRef (refetch_effect auth prev s) = lastFetchRef s"
    "lastFetchRef (initial_fetch_effect auth s) = lastFetchRef s"
    by (simp_all add: refetch_effect_def refetch_body_def initial_fetch_effect_def
          lastFetchRef_fetchPosts_begin)
  have approve: "lastFetchRef (handleApprove_begin ids postId s) = lastFetchRef s"
    "lastFetchRef (handleApprove_response auth ra s) = lastFetchRef s"
    "lastFetchRef (handleApprove_finally ids postId s) = lastFetchRef s"
    by (simp_all add: handleApprove_begin_def handleApprove_response_def
          handleApprove_finally_def lastFetchRef_fetchPosts_begin split: response.splits)
  have reject: "lastFetchRef (handleReject_begin ids nts postId s) = lastFetchRef s"
    "lastFetchRef (handleReject_response auth ra s) = lastFetchRef s"
    "lastFetchRef (handleReject_finally ids postId s) = lastFetchRef s"
    by (simp_all add: handleReject_begin_def handleReject_response_def Let_def
          handleReject_finally_def lastFetchRef_fetchPosts_begin split: response.splits)
  show ?thesis
    using settle [of r] settle [of "Http st' (Some Not_array)"] settle [of "Http st' None"]
      settle [of Threw]
    by (simp add: polling effects approve reject lastFetchRef_fetchPosts_begin)
qed

theorem lastFetchRef_only_on_array_witness:
  "lastFetchRef (fetchPosts_settle 7000 (Http 200 (Some (Posts_array []))) initial_state) = 7000
   \<and> lastFetchRef (fetchPosts_settle 7000 (Http 404 (Some (Posts_array []))) initial_state) = 0
   \<and> lastFetchRef (fetchPosts_settle 7000 (Http 200 (Some Not_array)) initial_state) = 0
   \<and> lastFetchRef (fetchPosts_settle 7000 Threw initial_state) = 0"
proof -
  note array = lastFetchRef_only_on_array
    [of 7000 "Http 200 (Some (Posts_array []))" initial_state 200, THEN conjunct1]
  note failed = lastFetchRef_only_on_array
    [of 7000 "Http 404 (Some (Posts_array []))" initial_state 200, THEN conjunct1]
  note not_array = lastFetchRef_only_on_array
    [of 7000 Threw initial_state 200, THEN conjunct2, THEN conjunct1]
  note threw = lastFetchRef_only_on_array
    [of 7000 Threw initial_state 200, THEN conjunct2, THEN conjunct2, THEN conjunct2,
     THEN conjunct1]
  have zero: "lastFetchRef initial_state = 0"
    by (simp add: initial_state_def)
  from array failed not_array threw zero show ?thesis
    by (simp add: ok_def)
qed

section \<open>Polling and filtering\<close>

text \<open>
  Claim C4 is not met by the code. The claim has a change to visible 15 s after the last
  successful fetch issue a silent fetch. In the component neither the visibility handler nor
  the callback of the poll timer ever issues a request, at any time and whether the document
  is visible or not: at 15 s past the recorded timestamp both pass the cool-down test and call
  \<^verbatim>\<open>fetchPosts(true)\<close>, which returns at its guard. So with the last fetch recorded at 60 s, a
  change to visible at 75 s issues nothing and leaves the refreshing indicator off, and so does
  a tick of the timer; and for the mounted component, whose timestamp is 0, the same holds
  at 15 s.
\<close>

theorem poll_never_fetches:
  "requests (handleVisibilityChange fetchPosts_isAuthenticated visible now s) = requests s
   \<and> requests (interval_tick fetchPosts_isAuthenticated visible now s) = requests s
   \<and> lastFetchRef fetched_at_60s_state = 60000
   \<and> requests (handleVisibilityChange fetchPosts_isAuthenticated True 75000
                  fetched_at_60s_state) = []
   \<and> isRefreshing (handleVisibilityChange fetchPosts_isAuthenticated True 75000
                      fetched_at_60s_state) = False
   \<and> requests (interval_tick fetchPosts_isAuthenticated True 75000 fetched_at_60s_state) = []
   \<and> requests (handleVisibilityChange fetchPosts_isAuthenticated True 15000 mounted_state) = []"
proof -
  have vis: "requests (handleVisibilityChange fetchPosts_isAuthenticated v t x) = requests x"
    for v t x
    by (simp add: handleVisibilityChange_def fetchPosts_first_render_binding
          requests_setupAutoRefresh requests_clear_interval)
  have tick: "interval_tick fetchPosts_isAuthenticated v t x = x" for v t x
    by (simp add: interval_tick_def fetchPosts_first_render_binding)
  have at60: "lastFetchRef fetched_at_60s_state = 60000
      \<and> requests fetched_at_60s_state = []"
    by (simp add: fetched_at_60s_state_def showing_def initial_state_def)
  have flag: "isRefreshing (handleVisibilityChange fetchPosts_isAuthenticated True 75000
                      fetched_at_60s_state) = False"
    by (simp add: handleVisibilityChange_def fetchPosts_first_render_binding
          setupAutoRefresh_def clear_interval_def Let_def fetched_at_60s_state_def
          showing_def initial_state_def)
  have mounted: "requests mounted_state = []"
    by (simp add: mounted_state_def initial_fetch_effect_def fetchPosts_first_render_binding
          authenticated_state_def check_authentication_effect_def initial_state_def)
  from at60 flag mounted show ?thesis
    by (simp add: vis tick)
qed

text \<open>
  Claim C6. After the filtering effect has run, the filtered view is the whole collection when
  the filter is "all", and for a status filter it is the posts of that status, in the order of
  the collection and with nothing else: as a set, exactly the posts of the collection whose
  status is the filter's. The view is always a subsequence of the collection, and the effect
  leaves the collection as it is.
\<close>

theorem filtered_view_exact:
  "filteredPosts (filteredPosts_effect (s\<lparr>filter_value := Filter_all\<rparr>)) = posts s
   \<and> filteredPosts (filteredPosts_effect (s\<lparr>filter_value := Filter_status st\<rparr>))
       = filter (\<lambda>p. status p = st) (posts s)
   \<and> set (filteredPosts (filteredPosts_effect (s\<lparr>filter_value := Filter_status st\<rparr>)))
       = {p \<in> set (posts s). status p = st}
   \<and> subseq (filteredPosts (filteredPosts_effect s)) (posts s)
   \<and> posts (filteredPosts_effect s) = posts s"
  by (simp add: filteredPosts_effect_def)

theorem filtered_view_exact_witness:
  "filteredPosts (filteredPosts_effect
      ((showing [example_post 1 Pending None, example_post 2 Approved None,
                 example_post 3 Pending None])\<lparr>filter_value := Filter_status Pending\<rparr>))
     = [example_post 1 Pending None, example_post 3 Pending None]
   \<and> filteredPosts (filteredPosts_effect
      ((showing [example_post 1 Pending None, example_post 2 Approved None])
         \<lparr>filter_value := Filter_status Rejected\<rparr>)) = []
   \<and> filteredPosts (filteredPosts_effect
      ((showing [example_post 1 Pending None, example_post 2 Approved None])
         \<lparr>filter_value := Filter_all\<rparr>))
     = [example_post 1 Pending None, example_post 2 Approved None]"
  using filtered_view_exact [of "showing [example_post 1 Pending None,
          example_post 2 Approved None, example_post 3 Pending None]" Pending]
        filtered_view_exact [of "showing [example_post 1 Pending None,
          example_post 2 Approved None]" Rejected]
  by (simp add: showing_def example_post_def)

section \<open>Moderation actions: the in-flight guard and the reconciling fetch\<close>


text \<open>
  Claim C1 is not met by the code. The optimistic half holds: the post with the note "bad
  data" is shown as rejected with that note as soon as the handler has been called, and the
  reject request carries the note. The reconciling half does not: whatever the reject call
  answers, the handler calls \<^verbatim>\<open>fetchPosts(true)\<close>, which returns at its guard, so the request
  list and the cached posts are left as they are. Here the reject call is answered with status
  500; when the handler has run to its end, the reject request is still the only request
  issued and the post is still shown as rejected with the note.
\<close>

theorem reject_never_reconciled:
  "requests (handleReject_response fetchPosts_isAuthenticated r s) = requests s
   \<and> posts (handleReject_response fetchPosts_isAuthenticated r s) = posts s
   \<and> map status (posts bad_data_state) = [Pending]
   \<and> map status (posts rejected_state) = [Rejected]
   \<and> map admin_notes (posts rejected_state) = [Some ''bad data'']
   \<and> requests rejected_state = [PostReject 1 ''bad data'']
   \<and> requests reject_answered_state = [PostReject 1 ''bad data'']
   \<and> map status (posts reject_answered_state) = [Rejected]
   \<and> map admin_notes (posts reject_answered_state) = [Some ''bad data'']"
proof -
  have frame: "requests (handleReject_response fetchPosts_isAuthenticated r x) = requests x
      \<and> posts (handleReject_response fetchPosts_isAuthenticated r x) = posts x" for r :: "'a response" and x
    by (simp add: handleReject_response_def fetchPosts_first_render_binding
          split: response.splits)
  have before: "map status (posts bad_data_state) = [Pending]"
    by (simp add: bad_data_state_def showing_def initial_state_def example_post_def)
  have now: "map status (posts rejected_state) = [Rejected]
      \<and> map admin_notes (posts rejected_state) = [Some ''bad data'']
      \<and> requests rejected_state = [PostReject 1 ''bad data'']"
    by (simp add: rejected_state_def handleReject_begin_def bad_data_state_def showing_def
          initial_state_def example_post_def adminNotes_of_def Let_def)
  have later: "requests reject_answered_state = requests rejected_state
      \<and> posts reject_answered_state = posts rejected_state"
    by (simp add: reject_answered_state_def handleReject_finally_def handleReject_response_def
          fetchPosts_first_render_binding)
  from frame [of r s] before now later show ?thesis
    by simp
qed

section \<open>The re-fetch on a change of filter\<close>

text \<open>
  Claim C5 is not met by the code. The claim has a change of filter trigger a silent re-fetch
  when the initial fetch is over and the cache is not empty, and has nothing but a change of
  filter trigger it. In the component the effect never issues a request and leaves the state as
  it is, whatever the dependencies of the render before: with the flag of the initial mount
  cleared, one post cached and the filter changed from "pending" to "approved", the effect
  passes its test and calls \<^verbatim>\<open>fetchPosts(true)\<close>, which returns at its guard. Moreover the
  dependencies of the effect differ between two renders with the same filter as soon as the
  number of cached posts differs, so that the effect is run again without a change of filter.
\<close>

theorem filter_change_never_refetches:
  "refetch_effect fetchPosts_isAuthenticated prev s = s
   \<and> requests (refetch_effect fetchPosts_isAuthenticated prev s) = requests s
   \<and> isInitialMount filter_changed_state = False
   \<and> length (posts filter_changed_state) = 1
   \<and> filter_value filter_changed_state = Filter_status Approved
   \<and> requests (refetch_effect fetchPosts_isAuthenticated (Some (Filter_status Pending, 1))
                  filter_changed_state) = []
   \<and> filter_value (showing []) = filter_value (showing [example_post 1 Pending None])
   \<and> refetch_deps (showing []) \<noteq> refetch_deps (showing [example_post 1 Pending None])"
proof -
  have noop: "refetch_effect fetchPosts_isAuthenticated p x = x" for p x
    by (simp add: refetch_effect_def refetch_body_def fetchPosts_first_render_binding)
  have state: "isInitialMount filter_changed_state = False
      \<and> length (posts filter_changed_state) = 1
      \<and> filter_value filter_changed_state = Filter_status Approved
      \<and> requests filter_changed_state = []"
    by (simp add: filter_changed_state_def showing_def initial_state_def)
  have deps: "filter_value (showing []) = filter_value (showing [example_post 1 Pending None])
      \<and> refetch_deps (showing []) \<noteq> refetch_deps (showing [example_post 1 Pending None])"
    by (simp add: refetch_deps_def showing_def initial_state_def)
  from state deps show ?thesis
    by (simp add: noop)
qed

section \<open>Party list manager: search and creation\<close>

text \<open>
  Claim C7. In the search box of a post's modal, a query shorter than 2 (so a query of length
  1) issues no request and sets that post's results to the empty list. A query of length 2 or
  more issues one search request carrying the query, marks the search as running and leaves
  the results as they are until a response is there. A response that is an HTTP success with
  parsed data replaces that post's results by exactly that data, whatever the results were
  before; a response that failed leaves them as they are. The results of every other post are
  never touched, and handling a response issues no request.
\<close>

theorem party_list_search_gate:
  "(length query < 2 \<longrightarrow>
      requests (search_onChange_begin postId query s) = requests s
    \<and> existingPartyLists (search_onChange_begin postId query s) postId = Some [])
   \<and> (length query \<ge> 2 \<longrightarrow>
      requests (search_onChange_begin postId query s) = requests s @ [GetPartyListSearch query]
    \<and> existingPartyLists (search_onChange_begin postId query s) = existingPartyLists s
    \<and> isSearchingPartyList (search_onChange_begin postId query s) postId = Some True)
   \<and> (ok st \<longrightarrow>
      existingPartyLists (search_onChange_settle postId (Http st (Some data)) s) postId = Some data)
   \<and> (\<not> ok st \<longrightarrow>
      existingPartyLists (search_onChange_settle postId (Http st body) s) = existingPartyLists s)
   \<and> existingPartyLists (search_onChange_settle postId Threw s) = existingPartyLists s
   \<and> (k \<noteq> postId \<longrightarrow>
      existingPartyLists (search_onChange_settle postId r s) k = existingPartyLists s k
    \<and> existingPartyLists (search_onChange_begin postId query s) k = existingPartyLists s k)
   \<and> requests (search_onChange_settle postId r s) = requests s"
proof -
  have short: "length query < 2 \<longrightarrow>
      requests (search_onChange_begin postId query s) = requests s
    \<and> existingPartyLists (search_onChange_begin postId query s) postId = Some []"
    by (simp add: search_onChange_begin_def Let_def)
  have long: "length query \<ge> 2 \<longrightarrow>
      requests (search_onChange_begin postId query s) = requests s @ [GetPartyListSearch query]
    \<and> existingPartyLists (search_onChange_begin postId query s) = existingPartyLists s
    \<and> isSearchingPartyList (search_onChange_begin postId query s) postId = Some True"
    by (simp add: search_onChange_begin_def Let_def)
  have latest: "ok st \<longrightarrow>
      existingPartyLists (search_onChange_settle postId (Http st (Some data)) s) postId = Some data"
    by (simp add: search_onChange_settle_def Let_def)
  have failed: "\<not> ok st \<longrightarrow>
      existingPartyLists (search_onChange_settle postId (Http st body) s) = existingPartyLists s"
    "existingPartyLists (search_onChange_settle postId Threw s) = existingPartyLists s"
    by (simp_all add: search_onChange_settle_def Let_def)
  have others: "k \<noteq> postId \<longrightarrow>
      existingPartyLists (search_onChange_settle postId r s) k = existingPartyLists s k
    \<and> existingPartyLists (search_onChange_begin postId query s) k = existingPartyLists s k"
    by (simp add: search_onChange_settle_def search_onChange_begin_def Let_def
          split: response.splits option.splits)
  have quiet: "requests (search_onChange_settle postId r s) = requests s"
    by (simp add: search_onChange_settle_def Let_def split: response.splits option.splits)
  from short long latest failed others quiet show ?thesis
    by blast
qed

theorem party_list_search_gate_witness:
  "requests (search_onChange_begin 1 ''a'' earlier_results_state) = []
   \<and> existingPartyLists (search_onChange_begin 1 ''a'' earlier_results_state) 1 = Some []
   \<and> requests (search_onChange_begin 1 ''ba'' earlier_results_state) = [GetPartyListSearch ''ba'']
   \<and> existingPartyLists (search_onChange_begin 1 ''ba'' earlier_results_state) 1
       = Some [example_party_list]
   \<and> existingPartyLists (search_onChange_settle 1 (Http 200 (Some [])) earlier_results_state) 1
       = Some []
   \<and> existingPartyLists (search_onChange_settle 1 (Http 500 None) earlier_results_state) 1
       = Some [example_party_list]"
proof -
  have start: "requests earlier_results_state = []
      \<and> existingPartyLists earlier_results_state 1 = Some [example_party_list]"
    by (simp add: earlier_results_state_def showing_def initial_state_def)
  have codes: "ok 200 \<and> \<not> ok 500"
    by (simp add: ok_def)
  note short = party_list_search_gate
    [of "''a''" 1 earlier_results_state 200 "[]" None 2 Threw]
  note long = party_list_search_gate
    [of "''ba''" 1 earlier_results_state 500 "[]" None 2 Threw]
  from short long start codes show ?thesis
    by simp
qed

text \<open>
  Claim C8, as amended. The create-new-party-list action issues a request whose body holds
  the post's party name, the post's identifier and the platform as a list of strings: the
  empty list when the platform is absent or is the empty string, and the one-element list of
  the platform text when that text is not empty.
\<close>

theorem create_body_contents:
  "b_name (create_body_of post) = party post
   \<and> b_post_id (create_body_of post) = p_id post
   \<and> ((platform post = None \<or> platform post = Some []) \<longrightarrow> b_platform (create_body_of post) = [])
   \<and> (platform post = Some t \<and> t \<noteq> [] \<longrightarrow> b_platform (create_body_of post) = [t])
   \<and> requests (createPartyList_begin post s) = requests s @ [PostPartyList (create_body_of post)]"
  by (auto simp: create_body_of_def platform_list_def createPartyList_begin_def)

theorem create_body_contents_witness:
  "b_platform (create_body_of (example_post 1 Pending (Some ''jobs''))) = [''jobs'']
   \<and> b_platform (create_body_of (example_post 1 Pending None)) = []
   \<and> b_name (create_body_of (example_post 1 Pending None)) = Some ''Bayan''
   \<and> b_post_id (create_body_of (example_post 1 Pending None)) = 1"
proof -
  have pf: "platform (example_post 1 Pending (Some ''jobs'')) = Some ''jobs''
      \<and> platform (example_post 1 Pending None) = None
      \<and> party (example_post 1 Pending None) = Some ''Bayan''
      \<and> p_id (example_post 1 Pending None) = 1"
    by (simp add: example_post_def)
  note filled = create_body_contents [of "example_post 1 Pending (Some ''jobs'')" "''jobs''"
      initial_state]
  note absent = create_body_contents [of "example_post 1 Pending None" "''jobs''" initial_state]
  from filled absent pf show ?thesis
    by simp
qed

text \<open>
  Claim C8 as it was stated fails for a platform that is a string but empty: the body's
  platform is the empty list, not a one-element list.
\<close>

theorem create_body_empty_platform_counterexample:
  "platform (example_post 1 Pending (Some '''')) = Some ''''
   \<and> b_platform (create_body_of (example_post 1 Pending (Some ''''))) = []
   \<and> length (b_platform (create_body_of (example_post 1 Pending (Some '''')))) \<noteq> 1"
  by (simp add: create_body_of_def platform_list_def example_post_def)

end
